theory Spec2Isabelle
  imports Main
begin

section \<open>The OpenAI-compatible gateway: data model\<close>

text \<open>
  The types of \<^verbatim>\<open>src/gateway/openai-http.ts\<close>. A TypeScript optional field
  (\<^verbatim>\<open>input?: number\<close>) is an \<open>option\<close>; token counts are JavaScript numbers that hold
  integers, modelled as \<open>int\<close>. The field \<^verbatim>\<open>output\<close> is \<open>usage_output\<close> here
  (\<open>output\<close> is a keyword of the theory language).
\<close>

record usage_record =
  input :: "int option"
  usage_output :: "int option"
  cacheRead :: "int option"
  cacheWrite :: "int option"
  total :: "int option"

record agent_meta =
  sessionId :: "string option"
  provider :: "string option"
  meta_model :: "string option"
  usage :: "usage_record option"

record result_meta =
  durationMs :: "int option"
  agentMeta :: "agent_meta option"

record payload =
  payload_text :: "string option"

record agent_command_result =
  payloads :: "payload list option"
  meta :: "result_meta option"

record open_ai_usage =
  prompt_tokens :: int
  completion_tokens :: int
  total_tokens :: int

text \<open>The operator \<^verbatim>\<open>a ?? b\<close>: \<open>b\<close> when \<open>a\<close> is null or undefined, else \<open>a\<close>.\<close>

definition nullish :: "'a option \<Rightarrow> 'a \<Rightarrow> 'a" where
  "nullish a b = (case a of None \<Rightarrow> b | Some v \<Rightarrow> v)"

text \<open>Optional chaining \<^verbatim>\<open>a?.f\<close> on an optional object with an optional field.\<close>

definition chain :: "'a option \<Rightarrow> ('a \<Rightarrow> 'b option) \<Rightarrow> 'b option" where
  "chain a f = (case a of None \<Rightarrow> None | Some v \<Rightarrow> f v)"

section \<open>UsageExtractor\<close>

text \<open>
  A JavaScript number is an IEEE 754 double. A token count is a double that holds an
  integer, modelled as that integer, and \<^verbatim>\<open>a + b\<close> is the exact sum rounded to the
  nearest double, a tie going to the even significand: the sum is exact as long as its
  magnitude is below \<open>2 ^ 53\<close>, and above that a double has 53 significant bits.
  Fractions, NaN, the infinities and sums beyond the largest finite double are not in
  the model: the properties of the sums are stated for counts that are doubles of a
  magnitude below \<open>2 ^ 1000\<close>, whose sums stay finite.
\<close>

function bitlen :: "int \<Rightarrow> nat" where
  "bitlen n = (if n \<le> 0 then 0 else Suc (bitlen (n div 2)))"
  by pat_completeness auto
termination
  by (relation "measure nat") auto

definition round_double :: "int \<Rightarrow> int" where
  "round_double x =
     (if \<bar>x\<bar> < 2 ^ 53 then x
      else
        (let q = 2 ^ (bitlen \<bar>x\<bar> - 53);
             sig = \<bar>x\<bar> div q;
             r = \<bar>x\<bar> mod q
         in sgn x *
            (if 2 * r < q then sig * q
             else if q < 2 * r then (sig + 1) * q
             else if even sig then sig * q
             else (sig + 1) * q)))"

definition js_add :: "int \<Rightarrow> int \<Rightarrow> int" where
  "js_add a b = round_double (a + b)"

text \<open>
  \<^verbatim>\<open>extractUsageFromResult(result: AgentCommandResult | null)\<close>, lines 89 to 103.
  A usage object, when present, is truthy, so \<^verbatim>\<open>!usage\<close> holds exactly when the chain
  \<^verbatim>\<open>result?.meta?.agentMeta?.usage\<close> is undefined.
\<close>

definition extractUsageFromResult :: "agent_command_result option \<Rightarrow> open_ai_usage" where
  "extractUsageFromResult result =
     (let usage_opt = chain (chain (chain result meta) agentMeta) usage in
      case usage_opt of
        None \<Rightarrow> \<lparr>prompt_tokens = 0, completion_tokens = 0, total_tokens = 0\<rparr>
      | Some u \<Rightarrow>
          (let promptTokens =
                 js_add (js_add (nullish (input u) 0) (nullish (cacheRead u) 0))
                        (nullish (cacheWrite u) 0);
               completionTokens = nullish (usage_output u) 0;
               totalTokens = nullish (total u) (js_add promptTokens completionTokens)
           in \<lparr>prompt_tokens = promptTokens,
               completion_tokens = completionTokens,
               total_tokens = totalTokens\<rparr>))"

text \<open>
  The specification's UsageExtractor, written from its words, with the sums of the
  integers: \<open>extract(record)\<close> on the usage record or its absence.
\<close>

definition field0 :: "int option \<Rightarrow> int" where
  "field0 x = (if x = None then 0 else the x)"

definition spec_prompt :: "usage_record \<Rightarrow> int" where
  "spec_prompt u = field0 (input u) + field0 (cacheRead u) + field0 (cacheWrite u)"

definition spec_completion :: "usage_record \<Rightarrow> int" where
  "spec_completion u = field0 (usage_output u)"

definition spec_total :: "usage_record \<Rightarrow> int" where
  "spec_total u = (if total u = None then spec_prompt u + spec_completion u else the (total u))"

definition spec_extract :: "usage_record option \<Rightarrow> open_ai_usage" where
  "spec_extract r =
     (if r = None then \<lparr>prompt_tokens = 0, completion_tokens = 0, total_tokens = 0\<rparr>
      else \<lparr>prompt_tokens = spec_prompt (the r),
            completion_tokens = spec_completion (the r),
            total_tokens = spec_total (the r)\<rparr>)"

text \<open>The counts that are added are doubles, and far from the largest one.\<close>

definition is_double :: "int \<Rightarrow> bool" where
  "is_double x = (round_double x = x \<and> \<bar>x\<bar> < 2 ^ 1000)"

definition double_counts :: "usage_record \<Rightarrow> bool" where
  "double_counts u =
     (is_double (field0 (input u)) \<and> is_double (field0 (cacheRead u))
      \<and> is_double (field0 (cacheWrite u)) \<and> is_double (field0 (usage_output u)))"

text \<open>
  Token counts as the data model has them, in the range where doubles add exactly: no
  count is negative, and the counts that are added sum to less than \<open>2 ^ 53\<close>.
\<close>

definition safe_counts :: "usage_record \<Rightarrow> bool" where
  "safe_counts u =
     (0 \<le> field0 (input u) \<and> 0 \<le> field0 (cacheRead u) \<and> 0 \<le> field0 (cacheWrite u)
      \<and> 0 \<le> field0 (usage_output u)
      \<and> field0 (input u) + field0 (cacheRead u) + field0 (cacheWrite u)
          + field0 (usage_output u) < 2 ^ 53)"

text \<open>The usage record a result carries, absent when any link of the chain is.\<close>

definition usage_of :: "agent_command_result option \<Rightarrow> usage_record option" where
  "usage_of result =
     (case result of None \<Rightarrow> None
      | Some r \<Rightarrow> (case meta r of None \<Rightarrow> None
          | Some m \<Rightarrow> (case agentMeta m of None \<Rightarrow> None
              | Some a \<Rightarrow> usage a)))"

section \<open>WebhookDeliverer: the usage-webhook extension\<close>

text \<open>
  \<^verbatim>\<open>extensions/usage-webhook/src/service.ts\<close>. The network is the environment: the
  outcome of the \<open>i\<close>-th \<^verbatim>\<open>fetch\<close> of a delivery is \<open>env i\<close>, either a response with
  its status and status text, or a rejection (the abort at the timeout, or a transport
  error) with its message. What the function does is its return value and the list of
  its effects, in order.
\<close>

datatype fetch_outcome = Response int string | Threw string

datatype send_error = HttpError int string | Thrown string

datatype log_msg =
    ClientError send_error
  | Exhausted int "send_error option"
  | GatewayStatus int
  | GatewayError string

text \<open>
  \<open>Post url t\<close> is one \<^verbatim>\<open>fetch(url, {method: "POST", ...})\<close>; \<open>t\<close> is the delay of the
  abort timer armed around it, \<open>None\<close> when the call passes no abort signal.
\<close>

datatype io = Post string "int option" | Sleep int | LoggerError log_msg

text \<open>\<^verbatim>\<open>response.ok\<close>: the status is in the range 200 to 299.\<close>

definition response_ok :: "int \<Rightarrow> bool" where
  "response_ok st = (200 \<le> st \<and> st \<le> 299)"

text \<open>\<^verbatim>\<open>Math.min(100 * Math.pow(2, attempt), 5000)\<close>, line 125.\<close>

definition backoff_delay :: "int \<Rightarrow> int" where
  "backoff_delay attempt = min (100 * 2 ^ nat attempt) 5000"

text \<open>
  The body of the \<^verbatim>\<open>try\<close>/\<^verbatim>\<open>catch\<close> of one iteration, lines 95 to 121: either the
  function returns, or the iteration ends with \<^verbatim>\<open>lastError\<close> set.
\<close>

datatype attempt_result = Return bool "io list" | Failed send_error "io list"

definition attempt_once :: "(nat \<Rightarrow> fetch_outcome) \<Rightarrow> string \<Rightarrow> int \<Rightarrow> int \<Rightarrow> attempt_result" where
  "attempt_once env url timeoutMs attempt =
     (case env (nat attempt) of
        Response st txt \<Rightarrow>
          if response_ok st then Return True [Post url (Some timeoutMs)]
          else if 400 \<le> st \<and> st < 500
            then Return False [Post url (Some timeoutMs), LoggerError (ClientError (HttpError st txt))]
            else Failed (HttpError st txt) [Post url (Some timeoutMs)]
      | Threw m \<Rightarrow> Failed (Thrown m) [Post url (Some timeoutMs)])"

text \<open>The loop \<^verbatim>\<open>for (let attempt = 0; attempt <= maxRetries; attempt++)\<close> from \<open>attempt\<close> on.\<close>

function send_loop ::
  "(nat \<Rightarrow> fetch_outcome) \<Rightarrow> string \<Rightarrow> int \<Rightarrow> int \<Rightarrow> int \<Rightarrow> send_error option \<Rightarrow> bool \<times> io list" where
  "send_loop env url timeoutMs maxRetries attempt lastError =
     (if attempt \<le> maxRetries then
        (case attempt_once env url timeoutMs attempt of
           Return b tr \<Rightarrow> (b, tr)
         | Failed e tr \<Rightarrow>
             (let pause = (if attempt < maxRetries then [Sleep (backoff_delay attempt)] else []);
                  rest = send_loop env url timeoutMs maxRetries (attempt + 1) (Some e)
              in (fst rest, tr @ pause @ snd rest)))
      else (False, [LoggerError (Exhausted (maxRetries + 1) lastError)]))"
  by pat_completeness auto
termination
  by (relation "measure (\<lambda>(env, url, timeoutMs, maxRetries, attempt, lastError). nat (maxRetries + 1 - attempt))") auto

definition sendWithRetry :: "(nat \<Rightarrow> fetch_outcome) \<Rightarrow> string \<Rightarrow> int \<Rightarrow> int \<Rightarrow> bool \<times> io list" where
  "sendWithRetry env url timeoutMs maxRetries = send_loop env url timeoutMs maxRetries 0 None"

text \<open>Reading a list of effects: the number of delivery attempts, and the delays slept.\<close>

fun attempts :: "io list \<Rightarrow> nat" where
  "attempts [] = 0"
| "attempts (Post url t # tr) = Suc (attempts tr)"
| "attempts (Sleep d # tr) = attempts tr"
| "attempts (LoggerError m # tr) = attempts tr"

fun sleeps :: "io list \<Rightarrow> int list" where
  "sleeps [] = []"
| "sleeps (Post url t # tr) = sleeps tr"
| "sleeps (Sleep d # tr) = d # sleeps tr"
| "sleeps (LoggerError m # tr) = sleeps tr"





definition always_404 :: "nat \<Rightarrow> fetch_outcome" where
  "always_404 i = Response 404 ''Not Found''"

subsection \<open>Resolving the webhook URL\<close>

text \<open>
  A string is a list of code units below 256. \<^verbatim>\<open>String.prototype.trim\<close> removes white
  space and line terminators from both ends; in this range these are tab, line feed,
  vertical tab, form feed, carriage return, space and the no-break space.
\<close>

definition is_space :: "char \<Rightarrow> bool" where
  "is_space c = (c \<in> set [CHR 0x09, CHR 0x0A, CHR 0x0B, CHR 0x0C, CHR 0x0D, CHR 0x20, CHR 0xA0])"

definition trim :: "string \<Rightarrow> string" where
  "trim str = rev (dropWhile is_space (rev (dropWhile is_space str)))"

text \<open>
  \<^verbatim>\<open>a || b\<close> on a string that may be undefined: \<open>b\<close> when \<open>a\<close> is undefined or empty.
\<close>

definition or_str :: "string option \<Rightarrow> string \<Rightarrow> string" where
  "or_str a b = (case a of None \<Rightarrow> b | Some str \<Rightarrow> if str = [] then b else str)"

record process_env =
  USAGE_WEBHOOK_URL :: "string option"
  OPENCLAW_USAGE_WEBHOOK_URL :: "string option"
  USAGE_WEBHOOK_AUTH_HEADER :: "string option"
  OPENCLAW_GATEWAY_TOKEN :: "string option"

definition DEFAULT_WEBHOOK_URL :: string where
  "DEFAULT_WEBHOOK_URL = ''https://mioqlnjhjisubolpscfh.supabase.co/functions/v1/usage-log''"

text \<open>\<^verbatim>\<open>resolveWebhookUrl(configUrl, env)\<close>, lines 47 to 58.\<close>

definition resolveWebhookUrl :: "string option \<Rightarrow> process_env \<Rightarrow> string option" where
  "resolveWebhookUrl configUrl env =
     (let url = or_str (map_option trim configUrl)
                 (or_str (map_option trim (USAGE_WEBHOOK_URL env))
                   (or_str (map_option trim (OPENCLAW_USAGE_WEBHOOK_URL env))
                     DEFAULT_WEBHOOK_URL))
      in if url = [] then None else Some url)"

subsection \<open>The service\<close>

text \<open>
  \<^verbatim>\<open>createUsageWebhookService\<close>, lines 152 to 239: the variables of the closure are the
  fields of the state (prefixed \<open>svc_\<close>), with the log lines written and the deliveries
  started (the calls of \<^verbatim>\<open>sendWithRetry\<close>) recorded in order. The payload of a usage
  event is a value of type \<open>'e\<close>. The headers and \<^verbatim>\<open>stop\<close> are left out: no property below
  depends on them.
\<close>

record usage_webhook_config =
  cfg_url :: "string option"
  cfg_batchSize :: "int option"
  cfg_flushIntervalMs :: "int option"
  cfg_timeoutMs :: "int option"
  cfg_maxRetries :: "int option"

datatype 'e body = Single 'e | Events "'e list"

record 'e delivery =
  d_url :: string
  d_body :: "'e body"
  d_timeoutMs :: int
  d_maxRetries :: int

datatype service_log =
    InfoDisabled
  | InfoEnabled string
  | WarnNoDiagnosticEvent
  | InfoReceived string
  | InfoProcessing

record 'e service_state =
  svc_unsubscribe :: bool
  svc_flushTimer :: bool
  svc_batch :: "'e list"
  svc_webhookUrl :: "string option"
  svc_batchSize :: int
  svc_flushIntervalMs :: int
  svc_timeoutMs :: int
  svc_maxRetries :: int
  svc_loggerRef :: bool
  svc_log :: "service_log list"
  svc_deliveries :: "'e delivery list"

definition createUsageWebhookService :: "'e service_state" where
  "createUsageWebhookService =
     \<lparr>svc_unsubscribe = False, svc_flushTimer = False, svc_batch = [],
      svc_webhookUrl = None, svc_batchSize = 1, svc_flushIntervalMs = 5000,
      svc_timeoutMs = 10000, svc_maxRetries = 3, svc_loggerRef = False,
      svc_log = [], svc_deliveries = []\<rparr>"

text \<open>
  \<^verbatim>\<open>flush\<close>, lines 165 to 175: the batch is taken and emptied, then one delivery is
  started with a single payload or with \<^verbatim>\<open>{events: toSend}\<close>.
\<close>

definition flush :: "'e service_state \<Rightarrow> 'e service_state" where
  "flush s =
     (case svc_webhookUrl s of
        None \<Rightarrow> s
      | Some url \<Rightarrow>
          if svc_batch s = [] \<or> url = [] \<or> \<not> svc_loggerRef s then s
          else
            (let toSend = svc_batch s;
                 payload = (case toSend of [e] \<Rightarrow> Single e | _ \<Rightarrow> Events toSend)
             in s\<lparr>svc_batch := [],
                  svc_deliveries := svc_deliveries s @
                    [\<lparr>d_url = url, d_body = payload, d_timeoutMs = svc_timeoutMs s,
                      d_maxRetries = svc_maxRetries s\<rparr>]\<rparr>))"

text \<open>
  \<^verbatim>\<open>start(ctx)\<close>, lines 179 to 223. \<open>cfg\<close> is \<^verbatim>\<open>ctx.config.usageWebhook\<close>, \<open>env\<close> is
  \<^verbatim>\<open>process.env\<close>, and \<open>has_feed\<close> says whether \<^verbatim>\<open>ctx.onDiagnosticEvent\<close> is there.
\<close>

definition start ::
  "usage_webhook_config option \<Rightarrow> process_env \<Rightarrow> bool \<Rightarrow> 'e service_state \<Rightarrow> 'e service_state" where
  "start cfg env has_feed s0 =
     (let s1 = s0\<lparr>svc_webhookUrl := resolveWebhookUrl (chain cfg cfg_url) env\<rparr> in
      case svc_webhookUrl s1 of
        None \<Rightarrow> s1\<lparr>svc_log := svc_log s1 @ [InfoDisabled]\<rparr>
      | Some url \<Rightarrow>
          if url = [] then s1\<lparr>svc_log := svc_log s1 @ [InfoDisabled]\<rparr>
          else
            (let s2 = s1\<lparr>svc_batchSize := nullish (chain cfg cfg_batchSize) 1,
                          svc_flushIntervalMs := nullish (chain cfg cfg_flushIntervalMs) 5000,
                          svc_timeoutMs := nullish (chain cfg cfg_timeoutMs) 10000,
                          svc_maxRetries := nullish (chain cfg cfg_maxRetries) 3,
                          svc_loggerRef := True,
                          svc_log := svc_log s1 @ [InfoEnabled url]\<rparr>
             in if \<not> has_feed then s2\<lparr>svc_log := svc_log s2 @ [WarnNoDiagnosticEvent]\<rparr>
                else s2\<lparr>svc_unsubscribe := True, svc_flushTimer := (svc_batchSize s2 > 1)\<rparr>))"

text \<open>The listener registered by \<open>start\<close>, lines 203 to 217, on an event of type \<open>ty\<close>.\<close>

definition on_diagnostic :: "string \<Rightarrow> 'e \<Rightarrow> 'e service_state \<Rightarrow> 'e service_state" where
  "on_diagnostic ty e s =
     (let s1 = s\<lparr>svc_log := svc_log s @ [InfoReceived ty]\<rparr> in
      if ty \<noteq> ''model.usage'' then s1
      else
        (let s2 = s1\<lparr>svc_log := svc_log s1 @ [InfoProcessing], svc_batch := svc_batch s1 @ [e]\<rparr>
         in if svc_batchSize s2 \<le> 1 \<or> int (length (svc_batch s2)) \<ge> svc_batchSize s2
            then flush s2 else s2))"

text \<open>
  What happens to a started service: a diagnostic event reaches the listener while it is
  subscribed, and the interval timer, when set, calls \<open>flush\<close>.
\<close>

datatype 'e service_input = Diagnostic string 'e | TimerTick

fun service_step :: "'e service_state \<Rightarrow> 'e service_input \<Rightarrow> 'e service_state" where
  "service_step s (Diagnostic ty e) = (if svc_unsubscribe s then on_diagnostic ty e s else s)"
| "service_step s TimerTick = (if svc_flushTimer s then flush s else s)"

definition service_run :: "'e service_state \<Rightarrow> 'e service_input list \<Rightarrow> 'e service_state" where
  "service_run s ins = foldl service_step s ins"

text \<open>A source of the URL that provides nothing: absent, or empty once trimmed.\<close>

definition provides_none :: "string option \<Rightarrow> bool" where
  "provides_none a = (case a of None \<Rightarrow> True | Some str \<Rightarrow> trim str = [])"

definition empty_env :: process_env where
  "empty_env = \<lparr>USAGE_WEBHOOK_URL = None, OPENCLAW_USAGE_WEBHOOK_URL = None,
                USAGE_WEBHOOK_AUTH_HEADER = None, OPENCLAW_GATEWAY_TOKEN = None\<rparr>"

text \<open>
  Every delivery the service has started went to \<open>u\<close>, and so will the next ones.
\<close>

definition sends_to :: "string \<Rightarrow> 'e service_state \<Rightarrow> bool" where
  "sends_to u s = (svc_webhookUrl s = Some u \<and> list_all (\<lambda>d. d_url d = u) (svc_deliveries s))"

section \<open>StreamBridge: the streaming path of the chat-completions handler\<close>

text \<open>
  \<^verbatim>\<open>handleOpenAiHttpRequest\<close> with \<^verbatim>\<open>stream\<close> set, lines 408 to 586. An event of the
  internal feed carries \<^verbatim>\<open>runId\<close>, \<^verbatim>\<open>stream\<close> and optional \<^verbatim>\<open>data\<close>, whose
  \<^verbatim>\<open>delta\<close> and \<^verbatim>\<open>text\<close> may hold a string or anything else.
\<close>

datatype js_value = JString string | JNotString

record event_data =
  data_delta :: "js_value option"
  data_text :: "js_value option"
  data_phase :: "string option"

record agent_event =
  evt_runId :: string
  evt_stream :: string
  evt_data :: "event_data option"

text \<open>
  A chunk object: \<^verbatim>\<open>delta\<close> is \<^verbatim>\<open>{role: "assistant"}\<close>, \<^verbatim>\<open>{content}\<close> or \<^verbatim>\<open>{}\<close>;
  \<^verbatim>\<open>finish_reason\<close> is null, \<^verbatim>\<open>"stop"\<close>, or not a key of the choice at all (\<open>None\<close>).
  The constant \<^verbatim>\<open>object\<close> and index, and \<^verbatim>\<open>created\<close> (a reading of the clock), are left
  out.
\<close>

datatype delta = DeltaRole | DeltaContent string | DeltaEmpty

datatype finish = FinishNull | FinishStop

record chunk =
  chunk_id :: string
  chunk_model :: string
  chunk_delta :: delta
  finish_reason :: "finish option"
  chunk_usage :: "open_ai_usage option"

text \<open>
  Modelled from the spec: \<^verbatim>\<open>writeDone\<close> of \<^verbatim>\<open>http-common.js\<close>, which is not among
  the sources, writes the terminal \<^verbatim>\<open>data: [DONE]\<close> sentinel and nothing else. With it,
  what reaches the response is \<^verbatim>\<open>writeSse(res, data)\<close>, \<^verbatim>\<open>writeDone(res)\<close> and
  \<^verbatim>\<open>res.end()\<close>.
\<close>

datatype res_op = WriteSse chunk | WriteDone | End

text \<open>
  \<^verbatim>\<open>UsageWebhookPayload\<close> without \<^verbatim>\<open>cost\<close> (floating point) and \<^verbatim>\<open>timestamp\<close> (the
  clock).
\<close>

record webhook_payload =
  wp_runId :: string
  wp_model :: string
  wp_provider :: "string option"
  wp_gatewayToken :: "string option"
  wp_usage :: open_ai_usage
  wp_durationMs :: "int option"

text \<open>What the handler has fixed before it streams: the run, the model and the options.\<close>

record request_ctx =
  runId :: string
  model :: string
  usageWebhookUrl :: "string option"
  auth_token :: "string option"

text \<open>
  The variables of the closure, with the subscription to the feed and, in order, the
  writes to the response, the events published and the webhook deliveries started.
\<close>

record bridge_state =
  wroteRole :: bool
  sawAssistantDelta :: bool
  closed :: bool
  streamResult :: "agent_command_result option"
  subscribed :: bool
  res_ops :: "res_op list"
  emitted :: "agent_event list"
  webhooks :: "(string \<times> webhook_payload) list"

definition init_state :: bridge_state where
  "init_state =
     \<lparr>wroteRole = False, sawAssistantDelta = False, closed = False, streamResult = None,
      subscribed = True, res_ops = [], emitted = [], webhooks = []\<rparr>"

definition role_chunk :: "request_ctx \<Rightarrow> chunk" where
  "role_chunk ctx =
     \<lparr>chunk_id = runId ctx, chunk_model = model ctx, chunk_delta = DeltaRole,
      finish_reason = None, chunk_usage = None\<rparr>"

definition content_chunk :: "request_ctx \<Rightarrow> string \<Rightarrow> chunk" where
  "content_chunk ctx content =
     \<lparr>chunk_id = runId ctx, chunk_model = model ctx, chunk_delta = DeltaContent content,
      finish_reason = Some FinishNull, chunk_usage = None\<rparr>"

definition final_chunk :: "request_ctx \<Rightarrow> open_ai_usage \<Rightarrow> chunk" where
  "final_chunk ctx u =
     \<lparr>chunk_id = runId ctx, chunk_model = model ctx, chunk_delta = DeltaEmpty,
      finish_reason = Some FinishStop, chunk_usage = Some u\<rparr>"

text \<open>The chunk of the \<^verbatim>\<open>catch\<close> block; \<open>err\<close> is \<^verbatim>\<open>String(err)\<close>.\<close>

definition error_chunk :: "request_ctx \<Rightarrow> string \<Rightarrow> chunk" where
  "error_chunk ctx err =
     \<lparr>chunk_id = runId ctx, chunk_model = model ctx,
      chunk_delta = DeltaContent (''Error: '' @ err),
      finish_reason = Some FinishStop, chunk_usage = None\<rparr>"

definition writeSse :: "bridge_state \<Rightarrow> chunk \<Rightarrow> bridge_state" where
  "writeSse s c = s\<lparr>res_ops := res_ops s @ [WriteSse c]\<rparr>"

text \<open>
  Lines 424 to 426: \<^verbatim>\<open>delta\<close> when it is a string, else \<^verbatim>\<open>text\<close> when it is a string,
  else the empty string.
\<close>

definition event_content :: "agent_event \<Rightarrow> string" where
  "event_content evt =
     (case chain (evt_data evt) data_delta of
        Some (JString d) \<Rightarrow> d
      | _ \<Rightarrow> (case chain (evt_data evt) data_text of
                Some (JString t) \<Rightarrow> t
              | _ \<Rightarrow> []))"

text \<open>The listener given to \<^verbatim>\<open>onAgentEvent\<close>, lines 415 to 460.\<close>

definition on_agent_event :: "request_ctx \<Rightarrow> agent_event \<Rightarrow> bridge_state \<Rightarrow> bridge_state" where
  "on_agent_event ctx evt s =
     (if evt_runId evt \<noteq> runId ctx then s
      else if closed s then s
      else if evt_stream evt = ''assistant'' then
        (let content = event_content evt in
         if content = [] then s
         else
           (let s1 = (if \<not> wroteRole s then writeSse (s\<lparr>wroteRole := True\<rparr>) (role_chunk ctx)
                      else s);
                s2 = s1\<lparr>sawAssistantDelta := True\<rparr>
            in writeSse s2 (content_chunk ctx content)))
      else s)"

text \<open>
  Modelled from the spec: the feed of \<^verbatim>\<open>infra/agent-events.js\<close>, which is not among the
  sources. It calls a listener with every event published until the handle returned by
  \<^verbatim>\<open>onAgentEvent\<close> is called; events after that are dropped.
\<close>

definition deliver :: "request_ctx \<Rightarrow> agent_event \<Rightarrow> bridge_state \<Rightarrow> bridge_state" where
  "deliver ctx evt s = (if subscribed s then on_agent_event ctx evt s else s)"

definition emitAgentEvent :: "request_ctx \<Rightarrow> agent_event \<Rightarrow> bridge_state \<Rightarrow> bridge_state" where
  "emitAgentEvent ctx evt s = deliver ctx evt (s\<lparr>emitted := emitted s @ [evt]\<rparr>)"

text \<open>The listener of the request's \<^verbatim>\<open>close\<close> event, lines 462 to 465.\<close>

definition on_close :: "bridge_state \<Rightarrow> bridge_state" where
  "on_close s = s\<lparr>closed := True, subscribed := False\<rparr>"

text \<open>
  The text of a result, lines 501 to 508 (and 363 to 370): the texts of the payloads
  that are non-empty strings, joined by \<^verbatim>\<open>"\n\n"\<close>, or the fallback when there is no
  payload.
\<close>

fun join_with :: "string \<Rightarrow> string list \<Rightarrow> string" where
  "join_with sep [] = []"
| "join_with sep [x] = x"
| "join_with sep (x # y # ys) = x @ sep @ join_with sep (y # ys)"

definition blank_line :: string where
  "blank_line = [CHR 0x0A, CHR 0x0A]"

definition payload_texts :: "payload list \<Rightarrow> string list" where
  "payload_texts ps =
     filter (\<lambda>t. t \<noteq> []) (map (\<lambda>p. case payload_text p of Some t \<Rightarrow> t | None \<Rightarrow> []) ps)"

definition result_content :: "agent_command_result option \<Rightarrow> string" where
  "result_content r =
     (case chain r payloads of
        Some ps \<Rightarrow>
          if length ps > 0 then join_with blank_line (payload_texts ps)
          else ''No response from OpenClaw.''
      | None \<Rightarrow> ''No response from OpenClaw.'')"

text \<open>\<^verbatim>\<open>buildUsageWebhookPayload\<close>, lines 124 to 162.\<close>

definition buildUsageWebhookPayload ::
  "request_ctx \<Rightarrow> agent_command_result option \<Rightarrow> open_ai_usage \<Rightarrow> webhook_payload" where
  "buildUsageWebhookPayload ctx r u =
     (let agentMeta_opt = chain (chain r meta) agentMeta in
      \<lparr>wp_runId = runId ctx, wp_model = model ctx,
       wp_provider = chain agentMeta_opt provider,
       wp_gatewayToken = auth_token ctx,
       wp_usage = u,
       wp_durationMs = chain (chain r meta) durationMs\<rparr>)"

text \<open>
  Lines 543 to 553 (and 374 to 384): with a non-empty \<^verbatim>\<open>opts.usageWebhookUrl\<close>,
  \<^verbatim>\<open>sendUsageWebhook\<close> is called and not awaited.
\<close>

definition webhook_calls ::
  "request_ctx \<Rightarrow> agent_command_result option \<Rightarrow> open_ai_usage \<Rightarrow> (string \<times> webhook_payload) list" where
  "webhook_calls ctx r u =
     (case usageWebhookUrl ctx of
        None \<Rightarrow> []
      | Some url \<Rightarrow> if url = [] then [] else [(url, buildUsageWebhookPayload ctx r u)])"

text \<open>The \<^verbatim>\<open>finally\<close> block, lines 576 to 583.\<close>

definition finally_block :: "bridge_state \<Rightarrow> bridge_state" where
  "finally_block s =
     (if \<not> closed s
      then s\<lparr>closed := True, subscribed := False, res_ops := res_ops s @ [WriteDone, End]\<rparr>
      else s)"

text \<open>The agent invocation resolves with \<open>r\<close>: the \<^verbatim>\<open>try\<close> block from line 483 on.\<close>

definition on_resolved ::
  "request_ctx \<Rightarrow> agent_command_result option \<Rightarrow> bridge_state \<Rightarrow> bridge_state" where
  "on_resolved ctx r s =
     (let s0 = s\<lparr>streamResult := r\<rparr> in
      if closed s0 then finally_block s0
      else
        (let s1 =
               (if \<not> sawAssistantDelta s0 then
                  (let sa = (if \<not> wroteRole s0
                             then writeSse (s0\<lparr>wroteRole := True\<rparr>) (role_chunk ctx)
                             else s0);
                       content = result_content (streamResult sa);
                       sb = sa\<lparr>sawAssistantDelta := True\<rparr>
                   in writeSse sb (content_chunk ctx content))
                else s0);
             u = extractUsageFromResult (streamResult s1);
             s2 = writeSse s1 (final_chunk ctx u);
             s3 = s2\<lparr>webhooks := webhooks s2 @ webhook_calls ctx (streamResult s2) u\<rparr>
         in finally_block s3))"

definition lifecycle_error :: "request_ctx \<Rightarrow> agent_event" where
  "lifecycle_error ctx =
     \<lparr>evt_runId = runId ctx, evt_stream = ''lifecycle'',
      evt_data = Some \<lparr>data_delta = None, data_text = None, data_phase = Some ''error''\<rparr>\<rparr>"

text \<open>The agent invocation rejects with \<open>err\<close>: the \<^verbatim>\<open>catch\<close> block, lines 554 to 575.\<close>

definition on_rejected :: "request_ctx \<Rightarrow> string \<Rightarrow> bridge_state \<Rightarrow> bridge_state" where
  "on_rejected ctx err s =
     (if closed s then finally_block s
      else
        (let s1 = writeSse s (error_chunk ctx err);
             s2 = emitAgentEvent ctx (lifecycle_error ctx) s1
         in finally_block s2))"

text \<open>
  Everything that can happen to the bridge, one callback at a time: the feed publishes an
  event, the client disconnects, the agent invocation resolves or rejects.
\<close>

datatype bridge_input =
    AgentEvent agent_event
  | ReqClose
  | AgentResolved "agent_command_result option"
  | AgentRejected string

fun step :: "request_ctx \<Rightarrow> bridge_state \<Rightarrow> bridge_input \<Rightarrow> bridge_state" where
  "step ctx s (AgentEvent evt) = deliver ctx evt s"
| "step ctx s ReqClose = on_close s"
| "step ctx s (AgentResolved r) = on_resolved ctx r s"
| "step ctx s (AgentRejected err) = on_rejected ctx err s"

definition run :: "request_ctx \<Rightarrow> bridge_state \<Rightarrow> bridge_input list \<Rightarrow> bridge_state" where
  "run ctx s ins = foldl (step ctx) s ins"






subsection \<open>Reading the response\<close>

text \<open>
  The kinds of writes. A content chunk has a \<^verbatim>\<open>content\<close> delta and a null
  \<^verbatim>\<open>finish_reason\<close>; the error chunk of a failed run carries content too, with
  \<^verbatim>\<open>finish_reason: "stop"\<close>.
\<close>

fun is_role :: "res_op \<Rightarrow> bool" where
  "is_role (WriteSse c) = (chunk_delta c = DeltaRole)"
| "is_role WriteDone = False"
| "is_role End = False"

fun carries_content :: "res_op \<Rightarrow> bool" where
  "carries_content (WriteSse c) = (case chunk_delta c of DeltaContent t \<Rightarrow> True | _ \<Rightarrow> False)"
| "carries_content WriteDone = False"
| "carries_content End = False"

fun is_content :: "res_op \<Rightarrow> bool" where
  "is_content (WriteSse c) =
     ((case chunk_delta c of DeltaContent t \<Rightarrow> True | _ \<Rightarrow> False) \<and> finish_reason c = Some FinishNull)"
| "is_content WriteDone = False"
| "is_content End = False"

fun usage_bearing :: "res_op \<Rightarrow> bool" where
  "usage_bearing (WriteSse c) = (chunk_usage c \<noteq> None)"
| "usage_bearing WriteDone = False"
| "usage_bearing End = False"

text \<open>
  An event the listener turns into a chunk: it is of this run, on the assistant stream,
  and its content is not empty. \<open>delta_texts\<close> are the contents of these events, in
  order of arrival.
\<close>

definition is_delta :: "request_ctx \<Rightarrow> agent_event \<Rightarrow> bool" where
  "is_delta ctx evt =
     (evt_runId evt = runId ctx \<and> evt_stream evt = ''assistant'' \<and> event_content evt \<noteq> [])"

definition delta_texts :: "request_ctx \<Rightarrow> agent_event list \<Rightarrow> string list" where
  "delta_texts ctx evs = map event_content (filter (is_delta ctx) evs)"

text \<open>
  The invariant of the bridge: once the role chunk is written it is the first write and
  the only role chunk; before that, nothing is written unless the run has failed.
\<close>

definition role_first :: "request_ctx \<Rightarrow> bridge_state \<Rightarrow> bool" where
  "role_first ctx s =
     ((sawAssistantDelta s \<longrightarrow> wroteRole s) \<and>
      (if wroteRole s
       then (case res_ops s of [] \<Rightarrow> False
             | x # rest \<Rightarrow> x = WriteSse (role_chunk ctx) \<and> \<not> list_ex is_role rest)
       else (res_ops s = [] \<or>
             closed s \<and> \<not> list_ex is_role (res_ops s) \<and> \<not> list_ex is_content (res_ops s))))"

subsection \<open>Concrete inputs\<close>

definition ctx0 :: request_ctx where
  "ctx0 = \<lparr>runId = ''chatcmpl_1'', model = ''openclaw'',
           usageWebhookUrl = Some ''https://example.com/hook'', auth_token = None\<rparr>"

definition delta_event :: "string \<Rightarrow> agent_event" where
  "delta_event t =
     \<lparr>evt_runId = ''chatcmpl_1'', evt_stream = ''assistant'',
      evt_data = Some \<lparr>data_delta = Some (JString t), data_text = None, data_phase = None\<rparr>\<rparr>"

definition empty_delta_event :: agent_event where
  "empty_delta_event =
     \<lparr>evt_runId = ''chatcmpl_1'', evt_stream = ''assistant'',
      evt_data = Some \<lparr>data_delta = Some (JString []), data_text = Some (JString ''hi''),
                       data_phase = None\<rparr>\<rparr>"

definition text_result :: "string \<Rightarrow> agent_command_result option" where
  "text_result t = Some \<lparr>payloads = Some [\<lparr>payload_text = Some t\<rparr>], meta = None\<rparr>"

definition usage_result :: "agent_command_result option" where
  "usage_result =
     Some \<lparr>payloads = Some [\<lparr>payload_text = Some ''Done.''\<rparr>],
           meta = Some \<lparr>durationMs = Some 1200,
             agentMeta = Some \<lparr>sessionId = None, provider = Some ''anthropic'', meta_model = None,
               usage = Some \<lparr>input = Some 100, usage_output = Some 50, cacheRead = Some 50,
                              cacheWrite = None, total = Some 200\<rparr>\<rparr>\<rparr>\<rparr>"

definition text_event :: "string \<Rightarrow> agent_event" where
  "text_event t =
     \<lparr>evt_runId = ''chatcmpl_1'', evt_stream = ''assistant'',
      evt_data = Some \<lparr>data_delta = None, data_text = Some (JString t), data_phase = None\<rparr>\<rparr>"

definition odd_delta_event :: "string \<Rightarrow> agent_event" where
  "odd_delta_event t =
     \<lparr>evt_runId = ''chatcmpl_1'', evt_stream = ''assistant'',
      evt_data = Some \<lparr>data_delta = Some JNotString, data_text = Some (JString t),
                       data_phase = None\<rparr>\<rparr>"

definition other_run_event :: "string \<Rightarrow> agent_event" where
  "other_run_event t =
     \<lparr>evt_runId = ''chatcmpl_2'', evt_stream = ''assistant'',
      evt_data = Some \<lparr>data_delta = Some (JString t), data_text = None, data_phase = None\<rparr>\<rparr>"

definition segments_result :: "agent_command_result option" where
  "segments_result =
     Some \<lparr>payloads = Some [\<lparr>payload_text = Some ''Hello''\<rparr>, \<lparr>payload_text = Some []\<rparr>,
                            \<lparr>payload_text = None\<rparr>, \<lparr>payload_text = Some ''world''\<rparr>,
                            \<lparr>payload_text = Some ''!''\<rparr>],
           meta = None\<rparr>"

definition no_payloads_result :: "agent_command_result option" where
  "no_payloads_result = Some \<lparr>payloads = Some [], meta = None\<rparr>"

definition usage_record_of :: "usage_record \<Rightarrow> agent_command_result option" where
  "usage_record_of u =
     Some \<lparr>payloads = None,
           meta = Some \<lparr>durationMs = None,
             agentMeta = Some \<lparr>sessionId = None, provider = None, meta_model = None,
               usage = Some u\<rparr>\<rparr>\<rparr>"

definition no_total_usage :: usage_record where
  "no_total_usage =
     \<lparr>input = Some 100, usage_output = Some 50, cacheRead = None, cacheWrite = None,
      total = None\<rparr>"

definition huge_usage :: usage_record where
  "huge_usage =
     \<lparr>input = Some 9007199254740992, usage_output = Some 1, cacheRead = Some 1,
      cacheWrite = None, total = None\<rparr>"

section \<open>Properties of UsageExtractor\<close>

lemma field0_nullish: "nullish x 0 = field0 x"
  by (cases x) (simp_all add: nullish_def field0_def)

lemma nullish_simps: "nullish None b = b" "nullish (Some v) b = v"
  by (simp_all add: nullish_def)

lemma chain_usage_of:
  "chain (chain (chain result meta) agentMeta) usage = usage_of result"
  by (simp add: chain_def usage_of_def split: option.splits)

declare bitlen.simps [simp del]

lemma js_add_exact: "\<bar>a + b\<bar> < 2 ^ 53 \<Longrightarrow> js_add a b = a + b"
  by (simp add: js_add_def round_double_def)

lemma extract_rounded:
  "usage_of result = Some u \<Longrightarrow>
   extractUsageFromResult result =
     \<lparr>prompt_tokens =
        js_add (js_add (field0 (input u)) (field0 (cacheRead u))) (field0 (cacheWrite u)),
      completion_tokens = field0 (usage_output u),
      total_tokens =
        (if total u = None
         then js_add (js_add (js_add (field0 (input u)) (field0 (cacheRead u)))
                        (field0 (cacheWrite u)))
                (field0 (usage_output u))
         else the (total u))\<rparr>"
  by (cases "total u")
     (simp_all add: extractUsageFromResult_def chain_usage_of Let_def field0_nullish
        nullish_simps)

lemma extract_safe:
  assumes "usage_of result = Some u" and "safe_counts u"
  shows "extractUsageFromResult result = spec_extract (Some u)"
proof -
  let ?i = "field0 (input u)" and ?r = "field0 (cacheRead u)"
  let ?w = "field0 (cacheWrite u)" and ?o = "field0 (usage_output u)"
  have nn: "0 \<le> ?i" "0 \<le> ?r" "0 \<le> ?w" "0 \<le> ?o" and lt: "?i + ?r + ?w + ?o < 2 ^ 53"
    using assms(2) by (simp_all add: safe_counts_def)
  have a1: "js_add ?i ?r = ?i + ?r"
    using nn lt by (intro js_add_exact) simp
  have a2: "js_add (?i + ?r) ?w = ?i + ?r + ?w"
    using nn lt by (intro js_add_exact) simp
  have a3: "js_add (?i + ?r + ?w) ?o = ?i + ?r + ?w + ?o"
    using nn lt by (intro js_add_exact) simp
  show ?thesis
    by (simp add: extract_rounded[OF assms(1)] a1 a2 a3 spec_extract_def spec_prompt_def
          spec_completion_def spec_total_def)
qed

text \<open>
  With an input of \<open>2 ^ 53\<close> tokens and one token read from the cache, the sum of the
  doubles is \<open>2 ^ 53\<close> and not \<open>2 ^ 53 + 1\<close>: the prompt and the total are not the sums
  of the counts.
\<close>

theorem extractUsageFromResult_rounding_counterexample:
  "double_counts huge_usage
   \<and> extractUsageFromResult (usage_record_of huge_usage)
     = \<lparr>prompt_tokens = 9007199254740992, completion_tokens = 1,
        total_tokens = 9007199254740992\<rparr>
   \<and> spec_extract (Some huge_usage)
     = \<lparr>prompt_tokens = 9007199254740993, completion_tokens = 1,
        total_tokens = 9007199254740994\<rparr>"
  by code_simp

text \<open>
  Claim C1, as the code has it. \<open>extractUsageFromResult\<close> is a total function of its
  input. It returns the all-zero triple when the result or its usage record is absent.
  Otherwise, for counts that are doubles, \<open>prompt_tokens\<close> is \<open>input + cacheRead + cacheWrite\<close> added in this order as
  doubles, \<open>completion_tokens\<close> is \<open>output\<close>, a missing field counting as 0, and
  \<open>total_tokens\<close> is \<open>total\<close> when that is present and the double sum
  \<open>prompt_tokens + completion_tokens\<close> when it is not. When no count is negative and
  the counts added sum to less than \<open>2 ^ 53\<close>, these sums are the sums of the
  integers.
\<close>

theorem extractUsageFromResult_spec:
  "(usage_of result = None \<longrightarrow>
      extractUsageFromResult result
        = \<lparr>prompt_tokens = 0, completion_tokens = 0, total_tokens = 0\<rparr>)
   \<and> (\<forall>u. usage_of result = Some u \<and> safe_counts u \<longrightarrow>
        extractUsageFromResult result =
          \<lparr>prompt_tokens = field0 (input u) + field0 (cacheRead u) + field0 (cacheWrite u),
           completion_tokens = field0 (usage_output u),
           total_tokens =
             (if total u = None
              then field0 (input u) + field0 (cacheRead u) + field0 (cacheWrite u)
                   + field0 (usage_output u)
              else the (total u))\<rparr>)
   \<and> (\<forall>u. usage_of result = Some u \<and> double_counts u \<longrightarrow>
        extractUsageFromResult result =
          \<lparr>prompt_tokens =
             js_add (js_add (field0 (input u)) (field0 (cacheRead u))) (field0 (cacheWrite u)),
           completion_tokens = field0 (usage_output u),
           total_tokens =
             (if total u = None
              then js_add (js_add (js_add (field0 (input u)) (field0 (cacheRead u)))
                             (field0 (cacheWrite u)))
                     (field0 (usage_output u))
              else the (total u))\<rparr>)
   \<and> (\<forall>a b. \<bar>a + b\<bar> < 2 ^ 53 \<longrightarrow> js_add a b = a + b)"
proof (intro conjI allI impI)
  assume "usage_of result = None"
  then show "extractUsageFromResult result
        = \<lparr>prompt_tokens = 0, completion_tokens = 0, total_tokens = 0\<rparr>"
    by (simp add: extractUsageFromResult_def chain_usage_of)
next
  fix u assume "usage_of result = Some u \<and> safe_counts u"
  then show "extractUsageFromResult result =
          \<lparr>prompt_tokens = field0 (input u) + field0 (cacheRead u) + field0 (cacheWrite u),
           completion_tokens = field0 (usage_output u),
           total_tokens =
             (if total u = None
              then field0 (input u) + field0 (cacheRead u) + field0 (cacheWrite u)
                   + field0 (usage_output u)
              else the (total u))\<rparr>"
    using extract_safe[of result u]
    by (simp add: spec_extract_def spec_prompt_def spec_completion_def spec_total_def)
next
  fix u assume "usage_of result = Some u \<and> double_counts u"
  then have "usage_of result = Some u" by simp
  then show "extractUsageFromResult result =
          \<lparr>prompt_tokens =
             js_add (js_add (field0 (input u)) (field0 (cacheRead u))) (field0 (cacheWrite u)),
           completion_tokens = field0 (usage_output u),
           total_tokens =
             (if total u = None
              then js_add (js_add (js_add (field0 (input u)) (field0 (cacheRead u)))
                             (field0 (cacheWrite u)))
                     (field0 (usage_output u))
              else the (total u))\<rparr>"
    by (rule extract_rounded)
next
  fix a b :: int assume "\<bar>a + b\<bar> < 2 ^ 53"
  then show "js_add a b = a + b" by (rule js_add_exact)
qed

theorem extractUsageFromResult_spec_witness:
  "usage_of usage_result \<noteq> None
   \<and> safe_counts no_total_usage
   \<and> extractUsageFromResult usage_result
     = \<lparr>prompt_tokens = 150, completion_tokens = 50, total_tokens = 200\<rparr>
   \<and> extractUsageFromResult (usage_record_of no_total_usage)
     = \<lparr>prompt_tokens = 100, completion_tokens = 50, total_tokens = 150\<rparr>
   \<and> extractUsageFromResult None
     = \<lparr>prompt_tokens = 0, completion_tokens = 0, total_tokens = 0\<rparr>"
proof -
  have s1: "safe_counts no_total_usage"
    by (simp add: safe_counts_def no_total_usage_def field0_def)
  have u1: "usage_of (usage_record_of no_total_usage) = Some no_total_usage"
    by (simp add: usage_of_def usage_record_of_def)
  let ?u2 = "\<lparr>input = Some 100, usage_output = Some 50, cacheRead = Some 50,
               cacheWrite = None, total = Some 200\<rparr>"
  have u2: "usage_of usage_result = Some ?u2"
    by (simp add: usage_of_def usage_result_def)
  have s2: "safe_counts ?u2"
    by (simp add: safe_counts_def field0_def)
  have n: "usage_of None = None" by (simp add: usage_of_def)
  show ?thesis
    using s1 u1 u2 s2 n
      extractUsageFromResult_spec[of "usage_record_of no_total_usage", THEN conjunct2, THEN conjunct1]
      extractUsageFromResult_spec[of usage_result, THEN conjunct2, THEN conjunct1]
      extractUsageFromResult_spec[of None, THEN conjunct1]
    by (simp add: no_total_usage_def field0_def)
qed

section \<open>Properties of WebhookDeliverer\<close>

declare send_loop.simps [simp del]















text \<open>
  Claim C8. When the first attempt of \<open>sendWithRetry\<close> receives an HTTP 4xx response,
  exactly one attempt is made: the failure is logged, nothing is retried whatever
  \<open>maxRetries\<close> is, and false is returned.
\<close>

theorem sendWithRetry_client_error:
  assumes "0 \<le> maxRetries" and "env 0 = Response st txt" and "400 \<le> st" and "st < 500"
  shows "sendWithRetry env url timeoutMs maxRetries
      = (False, [Post url (Some timeoutMs), LoggerError (ClientError (HttpError st txt))])
    \<and> attempts (snd (sendWithRetry env url timeoutMs maxRetries)) = 1
    \<and> sleeps (snd (sendWithRetry env url timeoutMs maxRetries)) = []"
proof -
  have "\<not> response_ok st" using assms(3) by (simp add: response_ok_def)
  then have "attempt_once env url timeoutMs 0
      = Return False [Post url (Some timeoutMs), LoggerError (ClientError (HttpError st txt))]"
    using assms by (simp add: attempt_once_def)
  then show ?thesis
    using assms(1) by (simp add: sendWithRetry_def send_loop.simps[of env url timeoutMs maxRetries 0])
qed

theorem sendWithRetry_client_error_witness:
  "(0::int) \<le> 3 \<and> always_404 0 = Response 404 ''Not Found'' \<and> (400::int) \<le> 404 \<and> (404::int) < 500
   \<and> sendWithRetry always_404 ''https://example.com/webhook'' 10000 3
      = (False, [Post ''https://example.com/webhook'' (Some 10000),
                 LoggerError (ClientError (HttpError 404 ''Not Found''))])"
proof -
  have h: "always_404 0 = Response 404 ''Not Found''" by (simp add: always_404_def)
  show ?thesis
    using h sendWithRetry_client_error[of 3 always_404 404 "''Not Found''"
        "''https://example.com/webhook''" 10000]
    by simp
qed

section \<open>Properties of the usage-webhook service\<close>

lemma or_str_provides_none: "provides_none a \<Longrightarrow> or_str (map_option trim a) b = b"
  by (cases a) (simp_all add: provides_none_def or_str_def)

lemma or_str_nonempty: "b \<noteq> [] \<Longrightarrow> or_str a b \<noteq> []"
  by (cases a) (simp_all add: or_str_def)

lemma default_url_nonempty: "DEFAULT_WEBHOOK_URL \<noteq> []"
  by (simp add: DEFAULT_WEBHOOK_URL_def)

lemma resolveWebhookUrl_never_undefined: "resolveWebhookUrl configUrl env \<noteq> None"
  by (simp add: resolveWebhookUrl_def Let_def or_str_nonempty default_url_nonempty)

lemma resolveWebhookUrl_default:
  "provides_none configUrl \<Longrightarrow> provides_none (USAGE_WEBHOOK_URL env) \<Longrightarrow>
   provides_none (OPENCLAW_USAGE_WEBHOOK_URL env) \<Longrightarrow>
   resolveWebhookUrl configUrl env = Some DEFAULT_WEBHOOK_URL"
  by (simp add: resolveWebhookUrl_def or_str_provides_none default_url_nonempty)

lemma flush_sends_to: "sends_to u s \<Longrightarrow> sends_to u (flush s)"
  by (simp add: sends_to_def flush_def Let_def)

lemma sends_to_update:
  "sends_to u (s\<lparr>svc_log := l\<rparr>) = sends_to u s"
  "sends_to u (s\<lparr>svc_batch := b\<rparr>) = sends_to u s"
  by (simp_all add: sends_to_def)

lemma on_diagnostic_sends_to: "sends_to u s \<Longrightarrow> sends_to u (on_diagnostic ty e s)"
  by (auto simp: on_diagnostic_def Let_def sends_to_update intro!: flush_sends_to)

lemma service_step_sends_to: "sends_to u s \<Longrightarrow> sends_to u (service_step s i)"
  by (cases i) (simp_all add: on_diagnostic_sends_to flush_sends_to)

lemma service_run_sends_to: "sends_to u s \<Longrightarrow> sends_to u (service_run s ins)"
  unfolding service_run_def
  by (induction ins arbitrary: s) (simp_all add: service_step_sends_to)

lemma start_default:
  assumes "resolveWebhookUrl (chain cfg cfg_url) env = Some DEFAULT_WEBHOOK_URL"
  shows "svc_webhookUrl (start cfg env has_feed createUsageWebhookService) = Some DEFAULT_WEBHOOK_URL"
    and "svc_deliveries (start cfg env has_feed (createUsageWebhookService :: 'e service_state)) = []"
    and "svc_log (start cfg env has_feed createUsageWebhookService)
          = InfoEnabled DEFAULT_WEBHOOK_URL # (if has_feed then [] else [WarnNoDiagnosticEvent])"
  using assms
  by (simp_all add: start_def createUsageWebhookService_def Let_def default_url_nonempty)

lemma start_first_event:
  assumes "resolveWebhookUrl (chain cfg cfg_url) env = Some DEFAULT_WEBHOOK_URL"
    and "nullish (chain cfg cfg_batchSize) 1 \<le> 1"
  shows "svc_deliveries (service_step (start cfg env True createUsageWebhookService)
            (Diagnostic ''model.usage'' e))
         = [\<lparr>d_url = DEFAULT_WEBHOOK_URL, d_body = Single e,
              d_timeoutMs = nullish (chain cfg cfg_timeoutMs) 10000,
              d_maxRetries = nullish (chain cfg cfg_maxRetries) 3\<rparr>]"
  using assms
  by (simp add: start_def createUsageWebhookService_def Let_def default_url_nonempty
        on_diagnostic_def flush_def)

text \<open>
  Claim C10. When neither the configured url nor \<open>USAGE_WEBHOOK_URL\<close> nor
  \<open>OPENCLAW_USAGE_WEBHOOK_URL\<close> provides a non-empty URL, \<open>resolveWebhookUrl\<close> returns
  the hardcoded default URL and not undefined (it returns undefined for no input at
  all), so \<open>start\<close> never takes its disabled branch, and every delivery of the started
  service goes to the default endpoint: with the default batch size, the first usage event
  is sent there at once.
\<close>

theorem resolveWebhookUrl_falls_back_to_default:
  assumes "provides_none (chain cfg cfg_url)"
    and "provides_none (USAGE_WEBHOOK_URL env)"
    and "provides_none (OPENCLAW_USAGE_WEBHOOK_URL env)"
  shows "resolveWebhookUrl (chain cfg cfg_url) env = Some DEFAULT_WEBHOOK_URL
    \<and> (\<forall>configUrl' env'. resolveWebhookUrl configUrl' env' \<noteq> None)
    \<and> svc_webhookUrl (start cfg env has_feed (createUsageWebhookService :: 'e service_state))
        = Some DEFAULT_WEBHOOK_URL
    \<and> InfoDisabled \<notin> set (svc_log (start cfg env has_feed (createUsageWebhookService :: 'e service_state)))
    \<and> list_all (\<lambda>d. d_url d = DEFAULT_WEBHOOK_URL)
        (svc_deliveries (service_run (start cfg env has_feed (createUsageWebhookService :: 'e service_state)) ins))
    \<and> (nullish (chain cfg cfg_batchSize) 1 \<le> 1 \<longrightarrow>
        svc_deliveries (service_step (start cfg env True createUsageWebhookService)
            (Diagnostic ''model.usage'' (e :: 'e)))
         = [\<lparr>d_url = DEFAULT_WEBHOOK_URL, d_body = Single e,
              d_timeoutMs = nullish (chain cfg cfg_timeoutMs) 10000,
              d_maxRetries = nullish (chain cfg cfg_maxRetries) 3\<rparr>])"
proof -
  have r: "resolveWebhookUrl (chain cfg cfg_url) env = Some DEFAULT_WEBHOOK_URL"
    using assms by (rule resolveWebhookUrl_default)
  let ?s0 = "start cfg env has_feed (createUsageWebhookService :: 'e service_state)"
  have "sends_to DEFAULT_WEBHOOK_URL ?s0"
    by (simp add: sends_to_def start_default[OF r])
  then have "sends_to DEFAULT_WEBHOOK_URL (service_run ?s0 ins)"
    by (rule service_run_sends_to)
  then have c4: "list_all (\<lambda>d. d_url d = DEFAULT_WEBHOOK_URL) (svc_deliveries (service_run ?s0 ins))"
    by (simp add: sends_to_def)
  have c2: "svc_webhookUrl ?s0 = Some DEFAULT_WEBHOOK_URL"
    by (rule start_default(1)[OF r])
  have c3: "InfoDisabled \<notin> set (svc_log ?s0)"
    by (simp add: start_default(3)[OF r])
  have c5: "nullish (chain cfg cfg_batchSize) 1 \<le> 1 \<longrightarrow>
        svc_deliveries (service_step (start cfg env True createUsageWebhookService)
            (Diagnostic ''model.usage'' (e :: 'e)))
         = [\<lparr>d_url = DEFAULT_WEBHOOK_URL, d_body = Single e,
              d_timeoutMs = nullish (chain cfg cfg_timeoutMs) 10000,
              d_maxRetries = nullish (chain cfg cfg_maxRetries) 3\<rparr>]"
    by (rule impI, rule start_first_event[OF r])
  show ?thesis
    using resolveWebhookUrl_never_undefined by (intro conjI r c2 c3 c4 c5) blast
qed

theorem resolveWebhookUrl_falls_back_to_default_witness:
  "provides_none (chain (Some \<lparr>cfg_url = Some ''  '', cfg_batchSize = None, cfg_flushIntervalMs = None, cfg_timeoutMs = None, cfg_maxRetries = None\<rparr>) cfg_url)
   \<and> provides_none (USAGE_WEBHOOK_URL empty_env)
   \<and> provides_none (OPENCLAW_USAGE_WEBHOOK_URL empty_env)
   \<and> resolveWebhookUrl (Some ''  '') empty_env = Some DEFAULT_WEBHOOK_URL
   \<and> svc_deliveries (service_step (start (Some \<lparr>cfg_url = Some ''  '', cfg_batchSize = None, cfg_flushIntervalMs = None, cfg_timeoutMs = None, cfg_maxRetries = None\<rparr>) empty_env True createUsageWebhookService)
            (Diagnostic ''model.usage'' (7::nat)))
         = [\<lparr>d_url = DEFAULT_WEBHOOK_URL, d_body = Single 7, d_timeoutMs = 10000, d_maxRetries = 3\<rparr>]"
proof -
  let ?cfg = "Some \<lparr>cfg_url = Some ''  '', cfg_batchSize = None, cfg_flushIntervalMs = None, cfg_timeoutMs = None, cfg_maxRetries = None\<rparr>"
  have h1: "provides_none (chain ?cfg cfg_url)"
    by (simp add: provides_none_def chain_def trim_def is_space_def)
  have h2: "provides_none (USAGE_WEBHOOK_URL empty_env)"
    and h3: "provides_none (OPENCLAW_USAGE_WEBHOOK_URL empty_env)"
    by (simp_all add: provides_none_def empty_env_def)
  show ?thesis
    using h1 h2 h3 resolveWebhookUrl_falls_back_to_default[OF h1 h2 h3, of True "[]" "7::nat"]
    by (simp add: chain_def nullish_def)
qed

section \<open>Properties of StreamBridge\<close>

lemma run_Nil: "run ctx s [] = s"
  by (simp add: run_def)

lemma run_Cons: "run ctx s (i # ins) = run ctx (step ctx s i) ins"
  by (simp add: run_def)

lemma run_append: "run ctx s (xs @ ys) = run ctx (run ctx s xs) ys"
  by (simp add: run_def)

lemma closed_step:
  "closed s \<Longrightarrow>
   closed (step ctx s i) \<and> res_ops (step ctx s i) = res_ops s
   \<and> emitted (step ctx s i) = emitted s \<and> webhooks (step ctx s i) = webhooks s"
  by (cases i)
     (simp_all add: deliver_def on_agent_event_def on_close_def on_resolved_def
        on_rejected_def finally_block_def Let_def)

lemma closed_run:
  "closed s \<Longrightarrow>
   closed (run ctx s ins) \<and> res_ops (run ctx s ins) = res_ops s
   \<and> emitted (run ctx s ins) = emitted s \<and> webhooks (run ctx s ins) = webhooks s"
proof (induction ins arbitrary: s)
  case Nil
  then show ?case by (simp add: run_Nil)
next
  case (Cons i ins)
  from closed_step[OF Cons.prems, of ctx i] Cons.IH[of "step ctx s i"]
  show ?case by (simp add: run_Cons)
qed

lemma on_close_closed:
  "closed (on_close s) \<and> \<not> subscribed (on_close s) \<and> res_ops (on_close s) = res_ops s
   \<and> emitted (on_close s) = emitted s \<and> webhooks (on_close s) = webhooks s"
  by (simp add: on_close_def)

declare step.simps [simp del]

lemmas bridge_eval =
  run_def step.simps deliver_def on_agent_event_def on_close_def on_resolved_def
  on_rejected_def finally_block_def emitAgentEvent_def writeSse_def event_content_def
  chain_def init_state_def ctx0_def delta_event_def empty_delta_event_def
  lifecycle_error_def Let_def

text \<open>
  Claim C3. Once the client's disconnect has been observed (\<open>closed\<close> set, the
  subscription removed), nothing more is written to the response, whatever happens
  next: events of the feed, the agent invocation resolving, or it failing. Nor is
  an event published or a webhook delivery started.
\<close>

theorem no_write_after_disconnect:
  "closed (run ctx s (pre @ [ReqClose]))
   \<and> \<not> subscribed (run ctx s (pre @ [ReqClose]))
   \<and> res_ops (run ctx s (pre @ ReqClose # post)) = res_ops (run ctx s pre)
   \<and> emitted (run ctx s (pre @ ReqClose # post)) = emitted (run ctx s pre)
   \<and> webhooks (run ctx s (pre @ ReqClose # post)) = webhooks (run ctx s pre)"
proof -
  let ?c = "on_close (run ctx s pre)"
  have c: "closed ?c" using on_close_closed by simp
  show ?thesis
    using closed_run[OF c, of ctx post] on_close_closed[of "run ctx s pre"]
    by (simp add: run_append run_Cons run_Nil step.simps)
qed

theorem no_write_after_disconnect_witness:
  "res_ops (run ctx0 init_state [AgentEvent (delta_event ''Hello''), ReqClose,
      AgentEvent (delta_event '' world''), AgentResolved (text_result ''Done.'')])
   = [WriteSse (role_chunk ctx0), WriteSse (content_chunk ctx0 ''Hello'')]
   \<and> res_ops (run ctx0 init_state [ReqClose, AgentRejected ''boom'']) = []"
  using no_write_after_disconnect[of ctx0 init_state "[AgentEvent (delta_event ''Hello'')]"
      "[AgentEvent (delta_event '' world''), AgentResolved (text_result ''Done.'')]"]
    no_write_after_disconnect[of ctx0 init_state "[]" "[AgentRejected ''boom'']"]
  by (simp add: bridge_eval)

lemma step_not_delta: "\<not> is_delta ctx evt \<Longrightarrow> step ctx s (AgentEvent evt) = s"
  by (auto simp: step.simps is_delta_def deliver_def on_agent_event_def Let_def)

lemma step_delta:
  "\<not> closed s \<Longrightarrow> subscribed s \<Longrightarrow> is_delta ctx evt \<Longrightarrow>
   step ctx s (AgentEvent evt) =
     s\<lparr>wroteRole := True, sawAssistantDelta := True,
       res_ops := res_ops s @ (if wroteRole s then [] else [WriteSse (role_chunk ctx)])
                  @ [WriteSse (content_chunk ctx (event_content evt))]\<rparr>"
  by (simp add: step.simps is_delta_def deliver_def on_agent_event_def Let_def writeSse_def)

lemma run_events:
  "\<not> closed s \<Longrightarrow> subscribed s \<Longrightarrow>
   run ctx s (map AgentEvent evs) =
     (if delta_texts ctx evs = [] then s
      else s\<lparr>wroteRole := True, sawAssistantDelta := True,
             res_ops := res_ops s @ (if wroteRole s then [] else [WriteSse (role_chunk ctx)])
                  @ map (\<lambda>t. WriteSse (content_chunk ctx t)) (delta_texts ctx evs)\<rparr>)"
proof (induction evs arbitrary: s)
  case Nil
  then show ?case by (simp add: run_Nil delta_texts_def)
next
  case (Cons e evs)
  show ?case
  proof (cases "is_delta ctx e")
    case False
    then show ?thesis
      using Cons.IH[OF Cons.prems] by (simp add: run_Cons step_not_delta delta_texts_def)
  next
    case True
    let ?s1 = "step ctx s (AgentEvent e)"
    have s1: "?s1 = s\<lparr>wroteRole := True, sawAssistantDelta := True,
       res_ops := res_ops s @ (if wroteRole s then [] else [WriteSse (role_chunk ctx)])
                  @ [WriteSse (content_chunk ctx (event_content e))]\<rparr>"
      using Cons.prems True by (rule step_delta)
    have "\<not> closed ?s1" "subscribed ?s1" using Cons.prems by (simp_all add: s1)
    from Cons.IH[OF this] show ?thesis
      using True by (simp add: run_Cons delta_texts_def s1)
  qed
qed

lemma chunk_kinds [simp]:
  "is_role (WriteSse (role_chunk ctx))"
  "\<not> is_role (WriteSse (content_chunk ctx t))"
  "\<not> is_role (WriteSse (final_chunk ctx u))"
  "\<not> is_role (WriteSse (error_chunk ctx err))"
  "\<not> is_content (WriteSse (role_chunk ctx))"
  "is_content (WriteSse (content_chunk ctx t))"
  "\<not> is_content (WriteSse (final_chunk ctx u))"
  "\<not> is_content (WriteSse (error_chunk ctx err))"
  "\<not> carries_content (WriteSse (role_chunk ctx))"
  "carries_content (WriteSse (content_chunk ctx t))"
  "\<not> carries_content (WriteSse (final_chunk ctx u))"
  "carries_content (WriteSse (error_chunk ctx err))"
  "\<not> usage_bearing (WriteSse (role_chunk ctx))"
  "\<not> usage_bearing (WriteSse (content_chunk ctx t))"
  "usage_bearing (WriteSse (final_chunk ctx u))"
  "\<not> usage_bearing (WriteSse (error_chunk ctx err))"
  by (simp_all add: role_chunk_def content_chunk_def final_chunk_def error_chunk_def)

declare is_role.simps(1) [simp del] carries_content.simps(1) [simp del]
  is_content.simps(1) [simp del] usage_bearing.simps(1) [simp del]

lemma emit_lifecycle:
  "emitAgentEvent ctx (lifecycle_error ctx) s = s\<lparr>emitted := emitted s @ [lifecycle_error ctx]\<rparr>"
  by (simp add: emitAgentEvent_def deliver_def on_agent_event_def lifecycle_error_def)

lemma on_rejected_open:
  "\<not> closed s \<Longrightarrow>
   on_rejected ctx err s =
     s\<lparr>closed := True, subscribed := False,
       res_ops := res_ops s @ [WriteSse (error_chunk ctx err), WriteDone, End],
       emitted := emitted s @ [lifecycle_error ctx]\<rparr>"
  by (simp add: on_rejected_def Let_def emit_lifecycle writeSse_def finally_block_def)

lemma on_resolved_open:
  "\<not> closed s \<Longrightarrow>
   on_resolved ctx r s =
     s\<lparr>wroteRole := (wroteRole s \<or> \<not> sawAssistantDelta s), sawAssistantDelta := True,
       closed := True, streamResult := r, subscribed := False,
       res_ops := res_ops s
         @ (if sawAssistantDelta s then []
            else (if wroteRole s then [] else [WriteSse (role_chunk ctx)])
                 @ [WriteSse (content_chunk ctx (result_content r))])
         @ [WriteSse (final_chunk ctx (extractUsageFromResult r)), WriteDone, End],
       webhooks := webhooks s @ webhook_calls ctx r (extractUsageFromResult r)\<rparr>"
  by (simp add: on_resolved_def Let_def writeSse_def finally_block_def)

lemma init_open: "\<not> closed init_state" "subscribed init_state"
  by (simp_all add: init_state_def)

text \<open>
  An assistant event of the run whose content is empty writes nothing: here \<open>delta\<close> is
  the empty string (and \<open>text\<close> is not looked at), the stream is open, and no chunk is
  emitted.
\<close>

theorem empty_delta_counterexample:
  "evt_runId empty_delta_event = runId ctx0
   \<and> evt_stream empty_delta_event = ''assistant''
   \<and> \<not> closed init_state
   \<and> res_ops (run ctx0 init_state [AgentEvent empty_delta_event]) = []"
  by (simp add: bridge_eval)

lemma event_content_cases:
  "event_content e =
     (case evt_data e of
        None \<Rightarrow> []
      | Some d \<Rightarrow>
          (case data_delta d of
             Some (JString x) \<Rightarrow> x
           | _ \<Rightarrow> (case data_text d of Some (JString y) \<Rightarrow> y | _ \<Rightarrow> [])))"
  by (simp add: event_content_def chain_def split: option.splits js_value.splits)

lemma event_content_fun:
  "event_content =
     (\<lambda>e. case evt_data e of
        None \<Rightarrow> []
      | Some d \<Rightarrow>
          (case data_delta d of
             Some (JString x) \<Rightarrow> x
           | _ \<Rightarrow> (case data_text d of Some (JString y) \<Rightarrow> y | _ \<Rightarrow> [])))"
  by (rule ext) (rule event_content_cases)

text \<open>
  Claim C5, as the code has it. While the stream is open, every assistant event of the
  active run whose content (\<open>delta\<close> when it is a string, else \<open>text\<close> when it is a
  string, else empty) is not empty is written as one content chunk with that content
  and a null \<open>finish_reason\<close>: one chunk for each such event, in the order of arrival,
  preceded by the role chunk when that was not yet written. Events of other runs, of
  other streams, or with empty content write nothing.
\<close>

theorem delta_chunks_in_order:
  assumes "\<not> closed s" and "subscribed s"
  shows "res_ops (run ctx s (map AgentEvent evs)) =
      res_ops s
      @ (if wroteRole s \<or> delta_texts ctx evs = [] then []
         else [WriteSse \<lparr>chunk_id = runId ctx, chunk_model = model ctx,
                 chunk_delta = DeltaRole, finish_reason = None, chunk_usage = None\<rparr>])
      @ map (\<lambda>t. WriteSse \<lparr>chunk_id = runId ctx, chunk_model = model ctx,
                 chunk_delta = DeltaContent t, finish_reason = Some FinishNull,
                 chunk_usage = None\<rparr>)
          (delta_texts ctx evs)
    \<and> delta_texts ctx evs =
        filter (\<lambda>t. t \<noteq> [])
          (map (\<lambda>e. case evt_data e of
                   None \<Rightarrow> []
                 | Some d \<Rightarrow>
                     (case data_delta d of
                        Some (JString x) \<Rightarrow> x
                      | _ \<Rightarrow> (case data_text d of Some (JString y) \<Rightarrow> y | _ \<Rightarrow> [])))
            (filter (\<lambda>e. evt_runId e = runId ctx \<and> evt_stream e = ''assistant'') evs))
    \<and> chunk_delta (content_chunk ctx t) = DeltaContent t
    \<and> finish_reason (content_chunk ctx t) = Some FinishNull"
proof -
  have "delta_texts ctx evs =
        filter (\<lambda>t. t \<noteq> [])
          (map event_content
            (filter (\<lambda>e. evt_runId e = runId ctx \<and> evt_stream e = ''assistant'') evs))"
    by (induction evs) (simp_all add: delta_texts_def is_delta_def)
  then have texts: "delta_texts ctx evs =
        filter (\<lambda>t. t \<noteq> [])
          (map (\<lambda>e. case evt_data e of
                   None \<Rightarrow> []
                 | Some d \<Rightarrow>
                     (case data_delta d of
                        Some (JString x) \<Rightarrow> x
                      | _ \<Rightarrow> (case data_text d of Some (JString y) \<Rightarrow> y | _ \<Rightarrow> [])))
            (filter (\<lambda>e. evt_runId e = runId ctx \<and> evt_stream e = ''assistant'') evs))"
    unfolding event_content_fun .
  have ops: "res_ops (run ctx s (map AgentEvent evs)) =
      res_ops s
      @ (if wroteRole s \<or> delta_texts ctx evs = [] then []
         else [WriteSse \<lparr>chunk_id = runId ctx, chunk_model = model ctx,
                 chunk_delta = DeltaRole, finish_reason = None, chunk_usage = None\<rparr>])
      @ map (\<lambda>t. WriteSse \<lparr>chunk_id = runId ctx, chunk_model = model ctx,
                 chunk_delta = DeltaContent t, finish_reason = Some FinishNull,
                 chunk_usage = None\<rparr>)
          (delta_texts ctx evs)"
    using run_events[OF assms, of ctx evs] by (simp add: content_chunk_def role_chunk_def)
  have fields: "chunk_delta (content_chunk ctx t) = DeltaContent t"
    "finish_reason (content_chunk ctx t) = Some FinishNull"
    by (simp_all add: content_chunk_def)
  show ?thesis
    by (intro conjI ops texts fields)
qed

theorem delta_chunks_in_order_witness:
  "\<not> closed init_state \<and> subscribed init_state
   \<and> res_ops (run ctx0 init_state
        (map AgentEvent [delta_event ''Hello'', empty_delta_event, text_event '' world'',
                         other_run_event ''no'', odd_delta_event ''!'']))
      = [WriteSse \<lparr>chunk_id = ''chatcmpl_1'', chunk_model = ''openclaw'',
                   chunk_delta = DeltaRole, finish_reason = None, chunk_usage = None\<rparr>,
         WriteSse \<lparr>chunk_id = ''chatcmpl_1'', chunk_model = ''openclaw'',
                   chunk_delta = DeltaContent ''Hello'', finish_reason = Some FinishNull,
                   chunk_usage = None\<rparr>,
         WriteSse \<lparr>chunk_id = ''chatcmpl_1'', chunk_model = ''openclaw'',
                   chunk_delta = DeltaContent '' world'', finish_reason = Some FinishNull,
                   chunk_usage = None\<rparr>,
         WriteSse \<lparr>chunk_id = ''chatcmpl_1'', chunk_model = ''openclaw'',
                   chunk_delta = DeltaContent ''!'', finish_reason = Some FinishNull,
                   chunk_usage = None\<rparr>]"
proof -
  have o: "\<not> closed init_state" and sub: "subscribed init_state"
    by (simp_all add: init_state_def)
  have t: "delta_texts ctx0 [delta_event ''Hello'', empty_delta_event, text_event '' world'',
                         other_run_event ''no'', odd_delta_event ''!'']
      = [''Hello'', '' world'', ''!'']"
    by (simp add: delta_texts_def is_delta_def delta_event_def empty_delta_event_def
          text_event_def other_run_event_def odd_delta_event_def
          event_content_def chain_def ctx0_def)
  have w: "\<not> wroteRole init_state" and r: "res_ops init_state = []"
    by (simp_all add: init_state_def)
  note inst = delta_chunks_in_order[OF o sub, of ctx0
        "[delta_event ''Hello'', empty_delta_event, text_event '' world'',
          other_run_event ''no'', odd_delta_event ''!'']", THEN conjunct1]
  show ?thesis
    using o sub inst unfolding t by (simp add: w r ctx0_def)
qed

lemma join_with_concat:
  "join_with sep (x # xs) = x @ concat (map (\<lambda>t. sep @ t) xs)"
  by (induction xs arbitrary: x) simp_all

text \<open>
  Claim C4. When the agent invocation resolves with no assistant delta observed and
  the client still connected, the response is the role chunk, exactly one content
  chunk, the final chunk with the usage, the sentinel, and the end of the stream. The
  text of the content chunk is the texts of the payloads that are non-empty strings,
  in order, with a blank line (two line feeds) between one and the next, or
  \<open>No response from OpenClaw.\<close> when there is no payload.
\<close>

theorem synthesized_content:
  assumes "delta_texts ctx evs = []"
  shows "res_ops (run ctx init_state (map AgentEvent evs @ [AgentResolved r])) =
      [WriteSse \<lparr>chunk_id = runId ctx, chunk_model = model ctx, chunk_delta = DeltaRole,
                 finish_reason = None, chunk_usage = None\<rparr>,
       WriteSse \<lparr>chunk_id = runId ctx, chunk_model = model ctx,
                 chunk_delta = DeltaContent (result_content r),
                 finish_reason = Some FinishNull, chunk_usage = None\<rparr>,
       WriteSse \<lparr>chunk_id = runId ctx, chunk_model = model ctx, chunk_delta = DeltaEmpty,
                 finish_reason = Some FinishStop,
                 chunk_usage = Some (extractUsageFromResult r)\<rparr>,
       WriteDone, End]
    \<and> length (filter carries_content
         (res_ops (run ctx init_state (map AgentEvent evs @ [AgentResolved r])))) = 1
    \<and> result_content r =
        (case r of
           None \<Rightarrow> ''No response from OpenClaw.''
         | Some res \<Rightarrow>
            (case payloads res of
               None \<Rightarrow> ''No response from OpenClaw.''
             | Some [] \<Rightarrow> ''No response from OpenClaw.''
             | Some (p # ps) \<Rightarrow>
                 (case filter (\<lambda>t. t \<noteq> [])
                         (map (\<lambda>q. case payload_text q of None \<Rightarrow> [] | Some t \<Rightarrow> t) (p # ps)) of
                    [] \<Rightarrow> []
                  | seg # segs \<Rightarrow>
                      seg @ concat (map (\<lambda>t. [CHR 0x0A, CHR 0x0A] @ t) segs))))"
proof -
  have pre: "run ctx init_state (map AgentEvent evs) = init_state"
    using run_events[OF init_open, of ctx evs] assms by simp
  have ops0: "res_ops (run ctx init_state (map AgentEvent evs @ [AgentResolved r])) =
      [WriteSse (role_chunk ctx),
       WriteSse (content_chunk ctx (result_content r)),
       WriteSse (final_chunk ctx (extractUsageFromResult r)),
       WriteDone, End]"
    by (simp add: run_append pre run_Cons run_Nil step.simps on_resolved_open init_open)
       (simp add: init_state_def)
  have one: "length (filter carries_content
         (res_ops (run ctx init_state (map AgentEvent evs @ [AgentResolved r])))) = 1"
    by (simp add: ops0)
  have ops: "res_ops (run ctx init_state (map AgentEvent evs @ [AgentResolved r])) =
      [WriteSse \<lparr>chunk_id = runId ctx, chunk_model = model ctx, chunk_delta = DeltaRole,
                 finish_reason = None, chunk_usage = None\<rparr>,
       WriteSse \<lparr>chunk_id = runId ctx, chunk_model = model ctx,
                 chunk_delta = DeltaContent (result_content r),
                 finish_reason = Some FinishNull, chunk_usage = None\<rparr>,
       WriteSse \<lparr>chunk_id = runId ctx, chunk_model = model ctx, chunk_delta = DeltaEmpty,
                 finish_reason = Some FinishStop,
                 chunk_usage = Some (extractUsageFromResult r)\<rparr>,
       WriteDone, End]"
    unfolding ops0 by (simp add: role_chunk_def content_chunk_def final_chunk_def)
  have content_eq: "result_content r =
        (case r of
           None \<Rightarrow> ''No response from OpenClaw.''
         | Some res \<Rightarrow>
            (case payloads res of
               None \<Rightarrow> ''No response from OpenClaw.''
             | Some [] \<Rightarrow> ''No response from OpenClaw.''
             | Some (p # ps) \<Rightarrow>
                 (case filter (\<lambda>t. t \<noteq> [])
                         (map (\<lambda>q. case payload_text q of None \<Rightarrow> [] | Some t \<Rightarrow> t) (p # ps)) of
                    [] \<Rightarrow> []
                  | seg # segs \<Rightarrow>
                      seg @ concat (map (\<lambda>t. [CHR 0x0A, CHR 0x0A] @ t) segs))))"
  proof (cases r)
    case None
    then show ?thesis by (simp add: result_content_def chain_def)
  next
    case (Some res)
    show ?thesis
    proof (cases "payloads res")
      case None
      then show ?thesis using Some by (simp add: result_content_def chain_def)
    next
      case ps: (Some pl)
      show ?thesis
      proof (cases pl)
        case Nil
        then show ?thesis using Some ps by (simp add: result_content_def chain_def)
      next
        case (Cons p ps')
        have "result_content r = join_with blank_line (payload_texts (p # ps'))"
          using Some ps Cons by (simp add: result_content_def chain_def)
        also have "\<dots> = (case payload_texts (p # ps') of
                    [] \<Rightarrow> []
                  | seg # segs \<Rightarrow> seg @ concat (map (\<lambda>t. blank_line @ t) segs))"
          by (cases "payload_texts (p # ps')") (simp_all add: join_with_concat)
        finally have "result_content r =
            (case filter (\<lambda>t. t \<noteq> [])
                    (map (\<lambda>q. case payload_text q of None \<Rightarrow> [] | Some t \<Rightarrow> t) (p # ps')) of
               [] \<Rightarrow> []
             | seg # segs \<Rightarrow> seg @ concat (map (\<lambda>t. [CHR 0x0A, CHR 0x0A] @ t) segs))"
          unfolding payload_texts_def blank_line_def .
        then show ?thesis
          by (simp only: Some ps Cons option.case list.case)
      qed
    qed
  qed
  show ?thesis
    by (intro conjI ops one content_eq)
qed

theorem synthesized_content_witness:
  "delta_texts ctx0 [empty_delta_event] = []
   \<and> res_ops (run ctx0 init_state
        (map AgentEvent [empty_delta_event] @ [AgentResolved segments_result]))
      = [WriteSse \<lparr>chunk_id = ''chatcmpl_1'', chunk_model = ''openclaw'',
                   chunk_delta = DeltaRole, finish_reason = None, chunk_usage = None\<rparr>,
         WriteSse \<lparr>chunk_id = ''chatcmpl_1'', chunk_model = ''openclaw'',
                   chunk_delta = DeltaContent
                     (''Hello'' @ [CHR 0x0A, CHR 0x0A] @ ''world'' @ [CHR 0x0A, CHR 0x0A] @ ''!''),
                   finish_reason = Some FinishNull, chunk_usage = None\<rparr>,
         WriteSse \<lparr>chunk_id = ''chatcmpl_1'', chunk_model = ''openclaw'',
                   chunk_delta = DeltaEmpty, finish_reason = Some FinishStop,
                   chunk_usage = Some \<lparr>prompt_tokens = 0, completion_tokens = 0,
                                        total_tokens = 0\<rparr>\<rparr>,
         WriteDone, End]
   \<and> result_content no_payloads_result = ''No response from OpenClaw.''
   \<and> result_content None = ''No response from OpenClaw.''
   \<and> result_content (text_result ''Done.'') = ''Done.''"
proof -
  have h: "delta_texts ctx0 [empty_delta_event] = []"
    by (simp add: delta_texts_def is_delta_def empty_delta_event_def event_content_def chain_def)
  have u: "extractUsageFromResult segments_result
      = \<lparr>prompt_tokens = 0, completion_tokens = 0, total_tokens = 0\<rparr>"
    by (simp add: extractUsageFromResult_def segments_result_def chain_def)
  note inst = synthesized_content[OF h]
  have c: "result_content segments_result
      = ''Hello'' @ [CHR 0x0A, CHR 0x0A] @ ''world'' @ [CHR 0x0A, CHR 0x0A] @ ''!''"
    using inst[of segments_result, THEN conjunct2, THEN conjunct2]
    by (simp add: segments_result_def)
  have c2: "result_content no_payloads_result = ''No response from OpenClaw.''"
    using inst[of no_payloads_result, THEN conjunct2, THEN conjunct2]
    by (simp add: no_payloads_result_def)
  have c3: "result_content None = ''No response from OpenClaw.''"
    using inst[of None, THEN conjunct2, THEN conjunct2] by simp
  have c4: "result_content (text_result ''Done.'') = ''Done.''"
    using inst[of "text_result ''Done.''", THEN conjunct2, THEN conjunct2]
    by (simp add: text_result_def)
  show ?thesis
    using h inst[of segments_result, THEN conjunct1] c2 c3 c4
    by (simp add: c u ctx0_def)
qed

lemma events_ops_plain:
  "\<not> list_ex usage_bearing (res_ops (run ctx init_state (map AgentEvent evs)))
   \<and> WriteDone \<notin> set (res_ops (run ctx init_state (map AgentEvent evs)))
   \<and> End \<notin> set (res_ops (run ctx init_state (map AgentEvent evs)))
   \<and> emitted (run ctx init_state (map AgentEvent evs)) = []
   \<and> webhooks (run ctx init_state (map AgentEvent evs)) = []
   \<and> \<not> closed (run ctx init_state (map AgentEvent evs))"
  using run_events[OF init_open, of ctx evs]
  by (auto simp: init_state_def list_ex_iff)

text \<open>
  Claim C6. When the agent invocation fails while the client is connected, the bridge
  writes one chunk whose content is the error's text, with \<open>finish_reason\<close> stop,
  publishes on the feed one event of the run on the lifecycle stream with phase error,
  writes no chunk that bears usage (and starts no webhook delivery), and writes the
  sentinel and ends the stream, each exactly once, whatever follows.
\<close>

theorem failure_path:
  "res_ops (run ctx init_state (map AgentEvent evs @ AgentRejected err # post)) =
      res_ops (run ctx init_state (map AgentEvent evs))
      @ [WriteSse \<lparr>chunk_id = runId ctx, chunk_model = model ctx,
                   chunk_delta = DeltaContent (''Error: '' @ err),
                   finish_reason = Some FinishStop, chunk_usage = None\<rparr>,
         WriteDone, End]
   \<and> chunk_delta (error_chunk ctx err) = DeltaContent (''Error: '' @ err)
   \<and> finish_reason (error_chunk ctx err) = Some FinishStop
   \<and> emitted (run ctx init_state (map AgentEvent evs @ AgentRejected err # post))
       = [\<lparr>evt_runId = runId ctx, evt_stream = ''lifecycle'',
           evt_data = Some \<lparr>data_delta = None, data_text = None,
                            data_phase = Some ''error''\<rparr>\<rparr>]
   \<and> \<not> list_ex usage_bearing
         (res_ops (run ctx init_state (map AgentEvent evs @ AgentRejected err # post)))
   \<and> webhooks (run ctx init_state (map AgentEvent evs @ AgentRejected err # post)) = []
   \<and> count_list (res_ops (run ctx init_state (map AgentEvent evs @ AgentRejected err # post)))
        WriteDone = 1
   \<and> count_list (res_ops (run ctx init_state (map AgentEvent evs @ AgentRejected err # post)))
        End = 1"
proof -
  let ?s = "run ctx init_state (map AgentEvent evs)"
  let ?f = "step ctx ?s (AgentRejected err)"
  note plain = events_ops_plain[of ctx evs]
  have f: "?f = ?s\<lparr>closed := True, subscribed := False,
       res_ops := res_ops ?s @ [WriteSse (error_chunk ctx err), WriteDone, End],
       emitted := emitted ?s @ [lifecycle_error ctx]\<rparr>"
    using plain by (simp add: step.simps on_rejected_open)
  have c: "closed ?f" by (simp add: f)
  have all: "run ctx init_state (map AgentEvent evs @ AgentRejected err # post) = run ctx ?f post"
    by (simp add: run_append run_Cons)
  have ops: "res_ops (run ctx ?f post) = res_ops ?s @ [WriteSse (error_chunk ctx err), WriteDone, End]"
    and em: "emitted (run ctx ?f post) = [lifecycle_error ctx]"
    and wh: "webhooks (run ctx ?f post) = []"
    using closed_run[OF c, of ctx post] plain by (simp_all add: f)
  have d: "count_list (res_ops ?s) WriteDone = 0" and e: "count_list (res_ops ?s) End = 0"
    using plain by (simp_all add: count_list_0_iff)
  have fields: "chunk_delta (error_chunk ctx err) = DeltaContent (''Error: '' @ err)"
    "finish_reason (error_chunk ctx err) = Some FinishStop"
    by (simp_all add: error_chunk_def)
  have chunk: "error_chunk ctx err =
      \<lparr>chunk_id = runId ctx, chunk_model = model ctx,
       chunk_delta = DeltaContent (''Error: '' @ err),
       finish_reason = Some FinishStop, chunk_usage = None\<rparr>"
    by (simp add: error_chunk_def)
  have event: "lifecycle_error ctx =
      \<lparr>evt_runId = runId ctx, evt_stream = ''lifecycle'',
       evt_data = Some \<lparr>data_delta = None, data_text = None, data_phase = Some ''error''\<rparr>\<rparr>"
    by (simp add: lifecycle_error_def)
  have c1: "res_ops (run ctx ?f post) =
      res_ops ?s @ [WriteSse \<lparr>chunk_id = runId ctx, chunk_model = model ctx,
                   chunk_delta = DeltaContent (''Error: '' @ err),
                   finish_reason = Some FinishStop, chunk_usage = None\<rparr>, WriteDone, End]"
    unfolding ops chunk ..
  have c4: "emitted (run ctx ?f post) =
      [\<lparr>evt_runId = runId ctx, evt_stream = ''lifecycle'',
        evt_data = Some \<lparr>data_delta = None, data_text = None, data_phase = Some ''error''\<rparr>\<rparr>]"
    unfolding em event ..
  have c5: "\<not> list_ex usage_bearing (res_ops (run ctx ?f post))"
    unfolding ops using plain by (simp add: list_ex_iff)
  have c7: "count_list (res_ops (run ctx ?f post)) WriteDone = 1"
    and c8: "count_list (res_ops (run ctx ?f post)) End = 1"
    unfolding ops using d e by simp_all
  show ?thesis
    unfolding all by (intro conjI c1 fields c4 c5 wh c7 c8)
qed

theorem failure_path_witness:
  "res_ops (run ctx0 init_state
      (map AgentEvent [delta_event ''Hello''] @ AgentRejected ''boom'' # [ReqClose]))
   = [WriteSse (role_chunk ctx0), WriteSse (content_chunk ctx0 ''Hello''),
      WriteSse \<lparr>chunk_id = ''chatcmpl_1'', chunk_model = ''openclaw'',
                chunk_delta = DeltaContent ''Error: boom'',
                finish_reason = Some FinishStop, chunk_usage = None\<rparr>,
      WriteDone, End]
   \<and> emitted (run ctx0 init_state
      (map AgentEvent [delta_event ''Hello''] @ AgentRejected ''boom'' # [ReqClose]))
     = [\<lparr>evt_runId = ''chatcmpl_1'', evt_stream = ''lifecycle'',
         evt_data = Some \<lparr>data_delta = None, data_text = None,
                          data_phase = Some ''error''\<rparr>\<rparr>]"
proof -
  have pre: "res_ops (run ctx0 init_state [AgentEvent (delta_event ''Hello'')])
      = [WriteSse (role_chunk ctx0), WriteSse (content_chunk ctx0 ''Hello'')]"
    by (simp add: bridge_eval)
  have ids: "runId ctx0 = ''chatcmpl_1''" "model ctx0 = ''openclaw''"
    by (simp_all add: ctx0_def)
  note inst = failure_path[of ctx0 "[delta_event ''Hello'']" "''boom''" "[ReqClose]"]
  show ?thesis
    using inst[THEN conjunct1] inst[THEN conjunct2, THEN conjunct2, THEN conjunct2, THEN conjunct1]
    by (simp add: pre ids)
qed

lemma role_first_init: "role_first ctx init_state"
  by (simp add: role_first_def init_state_def)

lemma closed_handlers:
  "closed s \<Longrightarrow> on_rejected ctx err s = s"
  "closed s \<Longrightarrow> on_resolved ctx r s = s\<lparr>streamResult := r\<rparr>"
  by (simp_all add: on_rejected_def on_resolved_def finally_block_def)

lemma deliver_cases:
  "deliver ctx evt s =
     (if subscribed s \<and> \<not> closed s \<and> is_delta ctx evt
      then s\<lparr>wroteRole := True, sawAssistantDelta := True,
       res_ops := res_ops s @ (if wroteRole s then [] else [WriteSse (role_chunk ctx)])
                  @ [WriteSse (content_chunk ctx (event_content evt))]\<rparr>
      else s)"
  by (auto simp: is_delta_def deliver_def on_agent_event_def Let_def writeSse_def)

lemma role_first_step: "role_first ctx s \<Longrightarrow> role_first ctx (step ctx s i)"
proof (cases i)
  case (AgentEvent evt)
  assume "role_first ctx s"
  then show ?thesis unfolding AgentEvent step.simps deliver_cases
    by (auto simp: role_first_def split: list.splits)
next
  case ReqClose
  assume "role_first ctx s"
  then show ?thesis unfolding ReqClose step.simps
    by (auto simp: role_first_def on_close_def split: list.splits)
next
  case (AgentResolved r)
  assume "role_first ctx s"
  then show ?thesis unfolding AgentResolved step.simps
    by (cases "closed s")
       (auto simp: role_first_def closed_handlers on_resolved_open split: list.splits)
next
  case (AgentRejected err)
  assume "role_first ctx s"
  then show ?thesis unfolding AgentRejected step.simps
    by (cases "closed s")
       (auto simp: role_first_def closed_handlers on_rejected_open split: list.splits)
qed

lemma role_first_run: "role_first ctx s \<Longrightarrow> role_first ctx (run ctx s ins)"
  by (induction ins arbitrary: s) (simp_all add: run_Nil run_Cons role_first_step)

lemma role_first_props:
  assumes "role_first ctx s"
  shows "length (filter is_role (res_ops s)) \<le> 1"
    and "\<forall>i < length (res_ops s). is_content (res_ops s ! i) \<longrightarrow>
           (\<exists>j < i. res_ops s ! j = WriteSse (role_chunk ctx))"
    and "\<forall>i < length (res_ops s). is_role (res_ops s ! i) \<longrightarrow>
           (\<forall>j < i. \<not> carries_content (res_ops s ! j))"
proof -
  show "length (filter is_role (res_ops s)) \<le> 1"
    using assms
    by (auto simp: role_first_def list_ex_iff filter_empty_conv split: list.splits if_splits)
  show "\<forall>i < length (res_ops s). is_content (res_ops s ! i) \<longrightarrow>
           (\<exists>j < i. res_ops s ! j = WriteSse (role_chunk ctx))"
  proof (intro allI impI)
    fix i assume i: "i < length (res_ops s)" and c: "is_content (res_ops s ! i)"
    have w: "wroteRole s"
      using assms i c by (auto simp: role_first_def list_ex_iff split: if_splits)
    then obtain rest where r: "res_ops s = WriteSse (role_chunk ctx) # rest"
      using assms by (auto simp: role_first_def split: list.splits)
    have "i \<noteq> 0" using c r by (cases i) auto
    then show "\<exists>j < i. res_ops s ! j = WriteSse (role_chunk ctx)"
      using r by (intro exI[of _ 0]) simp
  qed
  show "\<forall>i < length (res_ops s). is_role (res_ops s ! i) \<longrightarrow>
           (\<forall>j < i. \<not> carries_content (res_ops s ! j))"
  proof (intro allI impI)
    fix i j assume i: "i < length (res_ops s)" and c: "is_role (res_ops s ! i)" and j: "j < i"
    have w: "wroteRole s"
      using assms i c by (auto simp: role_first_def list_ex_iff split: if_splits)
    then obtain rest where r: "res_ops s = WriteSse (role_chunk ctx) # rest"
      and n: "\<not> list_ex is_role rest"
      using assms by (auto simp: role_first_def split: list.splits)
    have "i = 0"
    proof (rule ccontr)
      assume "i \<noteq> 0"
      then have "rest ! (i - 1) \<in> set rest" "is_role (rest ! (i - 1))"
        using i c r by (auto simp: nth_Cons')
      then show False using n by (auto simp: list_ex_iff)
    qed
    then show "\<not> carries_content (res_ops s ! j)" using j by simp
  qed
qed

text \<open>
  A failed run in which no delta had arrived: the error chunk, which carries content,
  is the first write, and no role chunk is written at all.
\<close>

theorem error_chunk_without_role_counterexample:
  "res_ops (run ctx0 init_state [AgentRejected ''boom''])
     = [WriteSse (error_chunk ctx0 ''boom''), WriteDone, End]
   \<and> chunk_delta (error_chunk ctx0 ''boom'') = DeltaContent ''Error: boom''
   \<and> carries_content (res_ops (run ctx0 init_state [AgentRejected ''boom'']) ! 0)
   \<and> filter is_role (res_ops (run ctx0 init_state [AgentRejected ''boom''])) = []"
  by (simp add: bridge_eval error_chunk_def is_role.simps(1) carries_content.simps(1))

text \<open>
  Claim C2, as the code has it. In every streaming run the role chunk is written at most
  once; every content chunk (a content delta with a null \<open>finish_reason\<close>, streamed or
  synthesized) comes after it; and no chunk that carries content, the error chunk
  included, comes before it.
\<close>

theorem role_chunk_once_and_first:
  "length (filter is_role (res_ops (run ctx init_state ins))) \<le> 1
   \<and> (\<forall>i < length (res_ops (run ctx init_state ins)).
         is_content (res_ops (run ctx init_state ins) ! i) \<longrightarrow>
         (\<exists>j < i. res_ops (run ctx init_state ins) ! j = WriteSse (role_chunk ctx)))
   \<and> (\<forall>i < length (res_ops (run ctx init_state ins)).
         is_role (res_ops (run ctx init_state ins) ! i) \<longrightarrow>
         (\<forall>j < i. \<not> carries_content (res_ops (run ctx init_state ins) ! j)))"
  using role_first_props[OF role_first_run[OF role_first_init, of ctx ins]] by blast

theorem role_chunk_once_and_first_witness:
  "res_ops (run ctx0 init_state
      [AgentEvent (delta_event ''Hello''), AgentEvent (delta_event '' world''),
       AgentResolved (text_result ''ignored'')]) ! 0 = WriteSse (role_chunk ctx0)
   \<and> is_content (res_ops (run ctx0 init_state
      [AgentEvent (delta_event ''Hello''), AgentEvent (delta_event '' world''),
       AgentResolved (text_result ''ignored'')]) ! 1)
   \<and> length (filter is_role (res_ops (run ctx0 init_state
      [AgentEvent (delta_event ''Hello''), AgentEvent (delta_event '' world''),
       AgentResolved (text_result ''ignored'')]))) = 1"
  using role_chunk_once_and_first[of ctx0
      "[AgentEvent (delta_event ''Hello''), AgentEvent (delta_event '' world''),
        AgentResolved (text_result ''ignored'')]"]
  by (simp add: bridge_eval)

section \<open>Properties of the gateway's webhook notification\<close>




end
